theory Spec2Isabelle
  imports Main "HOL-Library.AList" "HOL-Library.Char_ord" "HOL-Library.List_Lexorder"
    "HOL-Library.Sublist"
begin

section \<open>Subscription tiers and the tier policy table\<close>

text \<open>
  The services are TypeScript classes. A \<^verbatim>\<open>SubscriptionTier\<close> is a string enum
  (\<^verbatim>\<open>FREE = 'free'\<close>, \<^verbatim>\<open>PRO = 'pro'\<close>, \<^verbatim>\<open>ELITE = 'elite'\<close>); at run time a tier is
  the string itself, which is what the error messages interpolate and what the policy
  table is indexed with. A tier is therefore modelled as a string, so that values
  outside the enumeration can be given to the methods as well.

  Strings are lists of characters (code units), compared for equality character by
  character and ordered lexicographically, as \<^verbatim>\<open>===\<close>, \<^verbatim>\<open>includes\<close> and the default
  \<^verbatim>\<open>sort()\<close> do.

  A JavaScript object used as a dictionary (\<^verbatim>\<open>tierConfigurations\<close>, the accumulator of
  the \<^verbatim>\<open>reduce\<close> calls) is modelled by its own properties, as an association list in
  insertion order: \<open>map_of\<close> reads a property (\<open>None\<close> is \<^verbatim>\<open>undefined\<close>),
  \<open>AList.update\<close> writes one (in place when the key exists, else appended). Keys are
  taken not to be names inherited from \<^verbatim>\<open>Object.prototype\<close>, and no result below
  depends on the order in which \<^verbatim>\<open>Object.keys\<close> enumerates.
\<close>

type_synonym SubscriptionTier = string

definition FREE :: SubscriptionTier where
  "FREE = ''free''"

definition PRO :: SubscriptionTier where
  "PRO = ''pro''"

definition ELITE :: SubscriptionTier where
  "ELITE = ''elite''"

record TierConfiguration =
  countries :: "string list option"

text \<open>
  \<^verbatim>\<open>countries: string[] | null\<close>: \<open>None\<close> is \<^verbatim>\<open>null\<close>, the unrestricted policy.
  The three service classes each hold a field \<^verbatim>\<open>tierConfigurations\<close> with the same
  initialiser, character for character; it is written once here.
\<close>

definition freeCountries :: "string list" where
  "freeCountries = [''Israel'']"

definition proCountries :: "string list" where
  "proCountries =
     [''Israel'', ''United States'', ''Canada'', ''United Kingdom'', ''Germany'', ''France'',
      ''Australia'', ''Japan'', ''Brazil'', ''China'', ''India'']"

definition tierConfigurations :: "(SubscriptionTier \<times> TierConfiguration) list" where
  "tierConfigurations =
     [(FREE, \<lparr>countries = Some freeCountries\<rparr>),
      (PRO, \<lparr>countries = Some proCountries\<rparr>),
      (ELITE, \<lparr>countries = None\<rparr>)]"

text \<open>Every \<^verbatim>\<open>throw new Error(msg)\<close> of the services is the value \<open>Inl (Error msg)\<close>.\<close>

datatype error = Error string

definition invalidTier :: "SubscriptionTier \<Rightarrow> error" where
  "invalidTier t = Error (''Invalid subscription tier: '' @ t)"

definition countryNotAccessible :: "string \<Rightarrow> SubscriptionTier \<Rightarrow> error" where
  "countryNotAccessible c t =
     Error (''Country '' @ [CHR 0x27] @ c @ [CHR 0x27] @ '' is not accessible with '' @ t @ '' tier'')"

definition routesNotAccessible :: "string \<Rightarrow> string \<Rightarrow> error" where
  "routesNotAccessible s d =
     Error (''Access to routes between '' @ [CHR 0x27] @ s @ [CHR 0x27] @ '' and '' @ [CHR 0x27] @ d
            @ [CHR 0x27] @ '' requires a higher subscription tier'')"

text \<open>
  \<^verbatim>\<open>new Set<string>()\<close> with \<^verbatim>\<open>add\<close>, spread into an array: the distinct elements
  in the order of their first insertion.
\<close>

definition setAdd :: "string \<Rightarrow> string list \<Rightarrow> string list" where
  "setAdd x s = (if x \<in> set s then s else s @ [x])"

definition newSet :: "string list \<Rightarrow> string list" where
  "newSet xs = foldl (\<lambda>s x. setAdd x s) [] xs"

text \<open>
  The three grouping methods run the same \<^verbatim>\<open>reduce\<close> callback, up to the field that
  is the key and the keys that are skipped. \<open>groupByKey\<close> is that common callback with
  both as parameters; each method is shown to be an instance of it, and the lemmas on
  grouping are proved once.
\<close>

definition groupByKey ::
  "('r \<Rightarrow> string) \<Rightarrow> (string \<Rightarrow> bool) \<Rightarrow> 'r list \<Rightarrow> (string \<times> 'r list) list" where
  "groupByKey key bad rs =
     foldl (\<lambda>acc r.
        if bad (key r) then acc
        else
          let acc1 = (if map_of acc (key r) = None then AList.update (key r) [] acc else acc)
          in (case map_of acc1 (key r) of
                None \<Rightarrow> acc1
              | Some g \<Rightarrow> AList.update (key r) (g @ [r]) acc1))
       [] rs"

section \<open>AirlinesService\<close>

record Airline =
  name :: string
  iata :: string
  icao :: string
  callsign :: string
  country :: string
  active :: string

record AirlinesService =
  airlines :: "Airline list"

record AirlineStatistics =
  totalAirlines :: nat
  totalCountries :: nat
  countriesWithData :: "string list"

text \<open>
  \<^verbatim>\<open>airlines.reduce((acc, airline) => ..., {})\<close> is \<open>foldl\<close> of the callback from the
  empty object. In the callback, \<^verbatim>\<open>!airline.country\<close> holds for the empty string only,
  \<^verbatim>\<open>!acc[k]\<close> holds when the key is absent (an array is truthy), and \<^verbatim>\<open>push\<close> appends.
\<close>

definition groupAirlinesByCountry :: "Airline list \<Rightarrow> (string \<times> Airline list) list" where
  "groupAirlinesByCountry as =
     foldl (\<lambda>acc a.
        if Airline.country a = [] then acc
        else
          let acc1 = (if map_of acc (Airline.country a) = None
                      then AList.update (Airline.country a) [] acc else acc)
          in (case map_of acc1 (Airline.country a) of
                None \<Rightarrow> acc1
              | Some g \<Rightarrow> AList.update (Airline.country a) (g @ [a]) acc1))
       [] as"

definition getAirlinesByTier ::
  "AirlinesService \<Rightarrow> SubscriptionTier \<Rightarrow> error + (string \<times> Airline list) list" where
  "getAirlinesByTier svc t =
     (case map_of tierConfigurations t of
        None \<Rightarrow> Inl (invalidTier t)
      | Some config \<Rightarrow>
          (case countries config of
             None \<Rightarrow> Inr (groupAirlinesByCountry (airlines svc))
           | Some cs \<Rightarrow>
               Inr (groupAirlinesByCountry
                      (filter (\<lambda>a. Airline.country a \<in> set cs) (airlines svc)))))"

definition getAirlinesByCountry ::
  "AirlinesService \<Rightarrow> SubscriptionTier \<Rightarrow> string \<Rightarrow> error + Airline list" where
  "getAirlinesByCountry svc t c =
     (case map_of tierConfigurations t of
        None \<Rightarrow> Inl (invalidTier t)
      | Some config \<Rightarrow>
          if countries config \<noteq> None \<and> c \<notin> set (the (countries config))
          then Inl (countryNotAccessible c t)
          else Inr (filter (\<lambda>a. Airline.country a = c) (airlines svc)))"

definition AirlinesService_getAccessibleCountries ::
  "AirlinesService \<Rightarrow> SubscriptionTier \<Rightarrow> error + string list" where
  "AirlinesService_getAccessibleCountries svc t =
     (case map_of tierConfigurations t of
        None \<Rightarrow> Inl (invalidTier t)
      | Some config \<Rightarrow>
          (case countries config of
             None \<Rightarrow> Inr (sort (newSet (map Airline.country (airlines svc))))
           | Some cs \<Rightarrow> Inr cs))"

definition AirlinesService_getTierStatistics ::
  "AirlinesService \<Rightarrow> SubscriptionTier \<Rightarrow> error + AirlineStatistics" where
  "AirlinesService_getTierStatistics svc t =
     (case getAirlinesByTier svc t of
        Inl e \<Rightarrow> Inl e
      | Inr airlinesByCountry \<Rightarrow>
          let cs = map fst airlinesByCountry
          in Inr \<lparr>totalAirlines = length (concat (map snd airlinesByCountry)),
                  totalCountries = length cs,
                  countriesWithData = sort cs\<rparr>)"

definition AirlinesService_hasCountryAccess :: "SubscriptionTier \<Rightarrow> string \<Rightarrow> bool" where
  "AirlinesService_hasCountryAccess t c =
     (case map_of tierConfigurations t of
        None \<Rightarrow> False
      | Some config \<Rightarrow>
          (case countries config of
             None \<Rightarrow> True
           | Some cs \<Rightarrow> c \<in> set cs))"

section \<open>AirportsService\<close>

record Airport =
  name :: string
  city :: string
  country :: string
  iata :: string
  icao :: string
  latitude :: string
  longitude :: string
  altitude :: string
  timezone :: string
  dst :: string
  timezoneDb :: string

record AirportsService =
  airports :: "Airport list"

record AirportStatistics =
  totalAirports :: nat
  totalCountries :: nat
  countriesWithData :: "string list"

definition groupAirportsByCountry :: "Airport list \<Rightarrow> (string \<times> Airport list) list" where
  "groupAirportsByCountry as =
     foldl (\<lambda>acc a.
        if Airport.country a = [] then acc
        else
          let acc1 = (if map_of acc (Airport.country a) = None
                      then AList.update (Airport.country a) [] acc else acc)
          in (case map_of acc1 (Airport.country a) of
                None \<Rightarrow> acc1
              | Some g \<Rightarrow> AList.update (Airport.country a) (g @ [a]) acc1))
       [] as"

definition getAirportsByTier ::
  "AirportsService \<Rightarrow> SubscriptionTier \<Rightarrow> error + (string \<times> Airport list) list" where
  "getAirportsByTier svc t =
     (case map_of tierConfigurations t of
        None \<Rightarrow> Inl (invalidTier t)
      | Some config \<Rightarrow>
          (case countries config of
             None \<Rightarrow> Inr (groupAirportsByCountry (airports svc))
           | Some cs \<Rightarrow>
               Inr (groupAirportsByCountry
                      (filter (\<lambda>a. Airport.country a \<in> set cs) (airports svc)))))"

definition getAirportsByCountry ::
  "AirportsService \<Rightarrow> SubscriptionTier \<Rightarrow> string \<Rightarrow> error + Airport list" where
  "getAirportsByCountry svc t c =
     (case map_of tierConfigurations t of
        None \<Rightarrow> Inl (invalidTier t)
      | Some config \<Rightarrow>
          if countries config \<noteq> None \<and> c \<notin> set (the (countries config))
          then Inl (countryNotAccessible c t)
          else Inr (filter (\<lambda>a. Airport.country a = c) (airports svc)))"

definition AirportsService_getAccessibleCountries ::
  "AirportsService \<Rightarrow> SubscriptionTier \<Rightarrow> error + string list" where
  "AirportsService_getAccessibleCountries svc t =
     (case map_of tierConfigurations t of
        None \<Rightarrow> Inl (invalidTier t)
      | Some config \<Rightarrow>
          (case countries config of
             None \<Rightarrow> Inr (sort (newSet (map Airport.country (airports svc))))
           | Some cs \<Rightarrow> Inr cs))"

definition AirportsService_getTierStatistics ::
  "AirportsService \<Rightarrow> SubscriptionTier \<Rightarrow> error + AirportStatistics" where
  "AirportsService_getTierStatistics svc t =
     (case getAirportsByTier svc t of
        Inl e \<Rightarrow> Inl e
      | Inr airportsByCountry \<Rightarrow>
          let cs = map fst airportsByCountry
          in Inr \<lparr>totalAirports = length (concat (map snd airportsByCountry)),
                  totalCountries = length cs,
                  countriesWithData = sort cs\<rparr>)"

definition AirportsService_hasCountryAccess :: "SubscriptionTier \<Rightarrow> string \<Rightarrow> bool" where
  "AirportsService_hasCountryAccess t c =
     (case map_of tierConfigurations t of
        None \<Rightarrow> False
      | Some config \<Rightarrow>
          (case countries config of
             None \<Rightarrow> True
           | Some cs \<Rightarrow> c \<in> set cs))"

section \<open>RoutesService\<close>

record Route =
  airline :: string
  airlineId :: string
  sourceAirport :: string
  sourceAirportId :: string
  destinationAirport :: string
  destinationAirportId :: string
  codeshare :: string
  stops :: string
  equipment :: string

record RouteWithCountries = Route +
  sourceCountry :: string
  destinationCountry :: string

text \<open>
  \<^verbatim>\<open>airportCountryMap\<close> is a \<^verbatim>\<open>Map<string, string>\<close> from IATA code to country
  name, built once from the airports file; \<^verbatim>\<open>get\<close> is application and \<open>None\<close> is
  \<^verbatim>\<open>undefined\<close>.
\<close>

record RoutesService =
  routes :: "Route list"
  airportCountryMap :: "string \<Rightarrow> string option"

record RouteStatistics =
  totalRoutes :: nat
  totalCountries :: nat
  countriesWithData :: "string list"

text \<open>\<^verbatim>\<open>v || 'Unknown'\<close>: \<^verbatim>\<open>undefined\<close> and the empty string are falsy.\<close>

definition orUnknown :: "string option \<Rightarrow> string" where
  "orUnknown v = (case v of None \<Rightarrow> ''Unknown'' | Some c \<Rightarrow> if c = [] then ''Unknown'' else c)"

definition getRouteWithCountries :: "RoutesService \<Rightarrow> Route \<Rightarrow> RouteWithCountries" where
  "getRouteWithCountries svc r =
     \<lparr>airline = airline r, airlineId = airlineId r,
      sourceAirport = sourceAirport r, sourceAirportId = sourceAirportId r,
      destinationAirport = destinationAirport r, destinationAirportId = destinationAirportId r,
      codeshare = codeshare r, stops = stops r, equipment = equipment r,
      sourceCountry = orUnknown (airportCountryMap svc (sourceAirport r)),
      destinationCountry = orUnknown (airportCountryMap svc (destinationAirport r))\<rparr>"

definition groupRoutesBySourceCountry ::
  "RouteWithCountries list \<Rightarrow> (string \<times> RouteWithCountries list) list" where
  "groupRoutesBySourceCountry rs =
     foldl (\<lambda>acc r.
        if sourceCountry r = [] \<or> sourceCountry r = ''Unknown'' then acc
        else
          let acc1 = (if map_of acc (sourceCountry r) = None
                      then AList.update (sourceCountry r) [] acc else acc)
          in (case map_of acc1 (sourceCountry r) of
                None \<Rightarrow> acc1
              | Some g \<Rightarrow> AList.update (sourceCountry r) (g @ [r]) acc1))
       [] rs"

definition getRoutesByTier ::
  "RoutesService \<Rightarrow> SubscriptionTier \<Rightarrow> error + (string \<times> RouteWithCountries list) list" where
  "getRoutesByTier svc t =
     (case map_of tierConfigurations t of
        None \<Rightarrow> Inl (invalidTier t)
      | Some config \<Rightarrow>
          let routesWithCountries = map (getRouteWithCountries svc) (routes svc)
          in (case countries config of
                None \<Rightarrow> Inr (groupRoutesBySourceCountry routesWithCountries)
              | Some cs \<Rightarrow>
                  Inr (groupRoutesBySourceCountry
                         (filter (\<lambda>r. sourceCountry r \<in> set cs \<or> destinationCountry r \<in> set cs)
                            routesWithCountries))))"

definition getRoutesByCountry ::
  "RoutesService \<Rightarrow> SubscriptionTier \<Rightarrow> string \<Rightarrow> error + RouteWithCountries list" where
  "getRoutesByCountry svc t c =
     (case map_of tierConfigurations t of
        None \<Rightarrow> Inl (invalidTier t)
      | Some config \<Rightarrow>
          if countries config \<noteq> None \<and> c \<notin> set (the (countries config))
          then Inl (countryNotAccessible c t)
          else Inr (filter (\<lambda>r. sourceCountry r = c \<or> destinationCountry r = c)
                      (map (getRouteWithCountries svc) (routes svc))))"

definition getRoutesBetweenCountries ::
  "RoutesService \<Rightarrow> SubscriptionTier \<Rightarrow> string \<Rightarrow> string \<Rightarrow> error + RouteWithCountries list" where
  "getRoutesBetweenCountries svc t s d =
     (case map_of tierConfigurations t of
        None \<Rightarrow> Inl (invalidTier t)
      | Some config \<Rightarrow>
          if countries config \<noteq> None
             \<and> (s \<notin> set (the (countries config)) \<or> d \<notin> set (the (countries config)))
          then Inl (routesNotAccessible s d)
          else Inr (filter (\<lambda>r. sourceCountry r = s \<and> destinationCountry r = d)
                      (map (getRouteWithCountries svc) (routes svc))))"

definition RoutesService_getAccessibleCountries ::
  "RoutesService \<Rightarrow> SubscriptionTier \<Rightarrow> error + string list" where
  "RoutesService_getAccessibleCountries svc t =
     (case map_of tierConfigurations t of
        None \<Rightarrow> Inl (invalidTier t)
      | Some config \<Rightarrow>
          (case countries config of
             None \<Rightarrow>
               Inr (sort (foldl (\<lambda>allCountries r.
                             let s1 = (if sourceCountry r \<noteq> ''Unknown''
                                       then setAdd (sourceCountry r) allCountries
                                       else allCountries)
                             in if destinationCountry r \<noteq> ''Unknown''
                                then setAdd (destinationCountry r) s1 else s1)
                          [] (map (getRouteWithCountries svc) (routes svc))))
           | Some cs \<Rightarrow> Inr cs))"

definition RoutesService_getTierStatistics ::
  "RoutesService \<Rightarrow> SubscriptionTier \<Rightarrow> error + RouteStatistics" where
  "RoutesService_getTierStatistics svc t =
     (case getRoutesByTier svc t of
        Inl e \<Rightarrow> Inl e
      | Inr routesByCountry \<Rightarrow>
          let cs = map fst routesByCountry
          in Inr \<lparr>totalRoutes = length (concat (map snd routesByCountry)),
                  totalCountries = length cs,
                  countriesWithData = sort cs\<rparr>)"

definition RoutesService_hasCountryAccess :: "SubscriptionTier \<Rightarrow> string \<Rightarrow> bool" where
  "RoutesService_hasCountryAccess t c =
     (case map_of tierConfigurations t of
        None \<Rightarrow> False
      | Some config \<Rightarrow>
          (case countries config of
             None \<Rightarrow> True
           | Some cs \<Rightarrow> c \<in> set cs))"

section \<open>Credentials: JwtManager, the feature middleware and the route handlers\<close>

type_synonym UserTier = string







record TokenValidationResult =
  isValid :: bool
  payload :: "UserTier option"
  error :: "string option"
  tier :: "UserTier option"













section \<open>Sample data\<close>

text \<open>Small concrete record sets, on which the theorems below are instantiated.\<close>

definition airlineOf :: "string \<Rightarrow> string \<Rightarrow> Airline" where
  "airlineOf n c =
     \<lparr>Airline.name = n, Airline.iata = [], Airline.icao = [], Airline.callsign = [],
      Airline.country = c, Airline.active = ''Y''\<rparr>"

definition sampleAirlines :: AirlinesService where
  "sampleAirlines =
     \<lparr>airlines = [airlineOf ''El Al'' ''Israel'', airlineOf ''Lufthansa'' ''Germany'',
                  airlineOf ''Arkia'' ''Israel'', airlineOf ''Aeromexico'' ''Mexico'',
                  airlineOf ''Private flight'' []]\<rparr>"

definition airportOf :: "string \<Rightarrow> string \<Rightarrow> string \<Rightarrow> Airport" where
  "airportOf n c i =
     \<lparr>Airport.name = n, Airport.city = [], Airport.country = c, Airport.iata = i,
      Airport.icao = [], Airport.latitude = [], Airport.longitude = [], Airport.altitude = [],
      Airport.timezone = [], Airport.dst = [], Airport.timezoneDb = []\<rparr>"

definition sampleAirports :: AirportsService where
  "sampleAirports =
     \<lparr>airports = [airportOf ''Ben Gurion'' ''Israel'' ''TLV'',
                  airportOf ''Frankfurt'' ''Germany'' ''FRA'',
                  airportOf ''Eilat'' ''Israel'' ''ETH'',
                  airportOf ''Benito Juarez'' ''Mexico'' ''MEX'']\<rparr>"

definition routeOf :: "string \<Rightarrow> string \<Rightarrow> string \<Rightarrow> Route" where
  "routeOf al s d =
     \<lparr>airline = al, airlineId = [], sourceAirport = s, sourceAirportId = [],
      destinationAirport = d, destinationAirportId = [], codeshare = [], stops = ''0'',
      equipment = []\<rparr>"

text \<open>
  The code \<open>ZZZ\<close> has no entry in the index. Under FREE, the third route is kept for its
  destination only, and the fourth is kept by the filter but has no source country.
\<close>

definition sampleRoutes :: RoutesService where
  "sampleRoutes =
     \<lparr>routes = [routeOf ''LY'' ''TLV'' ''ETH'', routeOf ''LY'' ''TLV'' ''FRA'',
                routeOf ''LH'' ''FRA'' ''TLV'', routeOf ''XX'' ''ZZZ'' ''TLV'',
                routeOf ''AM'' ''MEX'' ''FRA''],
      airportCountryMap =
        map_of [(''TLV'', ''Israel''), (''ETH'', ''Israel''), (''FRA'', ''Germany''),
                (''MEX'', ''Mexico'')]\<rparr>"


section \<open>Lemmas on the policy table and on grouping\<close>

lemma tierConfigurations_FREE:
  "map_of tierConfigurations FREE = Some \<lparr>countries = Some freeCountries\<rparr>"
  by (simp add: tierConfigurations_def FREE_def)

lemma tierConfigurations_PRO:
  "map_of tierConfigurations PRO = Some \<lparr>countries = Some proCountries\<rparr>"
  by (simp add: tierConfigurations_def FREE_def PRO_def)

lemma tierConfigurations_ELITE:
  "map_of tierConfigurations ELITE = Some \<lparr>countries = None\<rparr>"
  by (simp add: tierConfigurations_def FREE_def PRO_def ELITE_def)

lemma tierConfigurations_absent:
  "t \<notin> {FREE, PRO, ELITE} \<Longrightarrow> map_of tierConfigurations t = None"
  by (simp add: tierConfigurations_def)

lemma tierConfigurations_present:
  "map_of tierConfigurations t \<noteq> None \<longleftrightarrow> t \<in> {FREE, PRO, ELITE}"
  by (auto simp: tierConfigurations_def)



lemma groupRoutesBySourceCountry_eq:
  "groupRoutesBySourceCountry = groupByKey sourceCountry (\<lambda>k. k = [] \<or> k = ''Unknown'')"
  by (simp add: fun_eq_iff groupRoutesBySourceCountry_def groupByKey_def)

lemma groupByKey_Nil: "groupByKey key bad [] = []"
  by (simp add: groupByKey_def)

lemma groupByKey_snoc:
  "groupByKey key bad (rs @ [r]) =
     (if bad (key r) then groupByKey key bad rs
      else AList.update (key r)
             ((case map_of (groupByKey key bad rs) (key r) of None \<Rightarrow> [] | Some g \<Rightarrow> g) @ [r])
             (groupByKey key bad rs))"
  by (simp add: groupByKey_def Let_def AList.update_conv' split: option.splits)

text \<open>The group of a key is the sublist of the records with that key, in their order.\<close>

lemma groupByKey_lookup:
  "map_of (groupByKey key bad rs) k =
     (if bad k \<or> filter (\<lambda>r. key r = k) rs = [] then None
      else Some (filter (\<lambda>r. key r = k) rs))"
proof (induction rs rule: rev_induct)
  case Nil
  show ?case by (simp add: groupByKey_Nil)
next
  case (snoc r rs)
  then show ?case
    by (simp add: groupByKey_snoc AList.update_conv')
qed

lemma groupByKey_distinct: "distinct (map fst (groupByKey key bad rs))"
  by (induction rs rule: rev_induct)
     (simp_all add: groupByKey_Nil groupByKey_snoc AList.distinct_update)

lemma groupByKey_member:
  "(k, g) \<in> set (groupByKey key bad rs) \<longleftrightarrow>
     \<not> bad k \<and> k \<in> key ` set rs \<and> g = filter (\<lambda>r. key r = k) rs"
proof -
  have "(k, g) \<in> set (groupByKey key bad rs) \<longleftrightarrow> map_of (groupByKey key bad rs) k = Some g"
    by (simp add: groupByKey_distinct)
  then show ?thesis by (auto simp: groupByKey_lookup filter_empty_conv)
qed

lemma in_table_cases:
  assumes "t \<in> {FREE, PRO, ELITE}"
  obtains cs where "map_of tierConfigurations t = Some \<lparr>countries = Some cs\<rparr>"
  | "map_of tierConfigurations t = Some \<lparr>countries = None\<rparr>"
  using assms tierConfigurations_FREE tierConfigurations_PRO tierConfigurations_ELITE
  by blast



lemma getRoutesByTier_result:
  assumes "t \<in> {FREE, PRO, ELITE}"
  obtains P where
    "getRoutesByTier svc t =
       Inr (groupByKey sourceCountry (\<lambda>k. k = [] \<or> k = ''Unknown'')
              (filter P (map (getRouteWithCountries svc) (routes svc))))"
proof (rule in_table_cases [OF assms])
  fix cs
  assume "map_of tierConfigurations t = Some \<lparr>countries = Some cs\<rparr>"
  then have "getRoutesByTier svc t =
      Inr (groupByKey sourceCountry (\<lambda>k. k = [] \<or> k = ''Unknown'')
             (filter (\<lambda>r. sourceCountry r \<in> set cs \<or> destinationCountry r \<in> set cs)
                (map (getRouteWithCountries svc) (routes svc))))"
    by (simp add: getRoutesByTier_def groupRoutesBySourceCountry_eq)
  then show thesis by (rule that)
next
  assume "map_of tierConfigurations t = Some \<lparr>countries = None\<rparr>"
  then have "getRoutesByTier svc t =
      Inr (groupByKey sourceCountry (\<lambda>k. k = [] \<or> k = ''Unknown'')
             (filter (\<lambda>r. True) (map (getRouteWithCountries svc) (routes svc))))"
    by (simp add: getRoutesByTier_def groupRoutesBySourceCountry_eq)
  then show thesis by (rule that)
qed









lemma groupByKey_only_under_key:
  assumes "(k, g) \<in> set (groupByKey key bad rs)" and "r \<in> set g"
  shows "key r = k \<and> \<not> bad k"
  using assms by (simp add: groupByKey_member)


lemma getRoutesByTier_groups_not_Unknown:
  assumes "getRoutesByTier svc t = Inr m" and "(k, g) \<in> set m" and "x \<in> set g"
  shows "sourceCountry x = k \<and> k \<noteq> ''Unknown'' \<and> k \<noteq> []"
proof -
  from assms(1) have "map_of tierConfigurations t \<noteq> None"
    by (auto simp: getRoutesByTier_def split: option.splits)
  then have "t \<in> {FREE, PRO, ELITE}" by (simp only: tierConfigurations_present)
  then obtain P where "getRoutesByTier svc t =
       Inr (groupByKey sourceCountry (\<lambda>k. k = [] \<or> k = ''Unknown'')
              (filter P (map (getRouteWithCountries svc) (routes svc))))"
    by (rule getRoutesByTier_result)
  with assms(1) have "m = groupByKey sourceCountry (\<lambda>k. k = [] \<or> k = ''Unknown'')
              (filter P (map (getRouteWithCountries svc) (routes svc)))" by simp
  from groupByKey_only_under_key [OF assms(2) [unfolded this] assms(3)]
  show ?thesis by simp
qed

lemma RoutesService_hasCountryAccess_iff:
  "RoutesService_hasCountryAccess t c \<longleftrightarrow>
     (\<exists>config. map_of tierConfigurations t = Some config
        \<and> (countries config = None \<or> c \<in> set (the (countries config))))"
  by (auto simp: RoutesService_hasCountryAccess_def split: option.splits)

lemma AirlinesService_hasCountryAccess_iff:
  "AirlinesService_hasCountryAccess t c \<longleftrightarrow>
     (\<exists>config. map_of tierConfigurations t = Some config
        \<and> (countries config = None \<or> c \<in> set (the (countries config))))"
  by (auto simp: AirlinesService_hasCountryAccess_def split: option.splits)

lemma AirportsService_hasCountryAccess_iff:
  "AirportsService_hasCountryAccess t c \<longleftrightarrow>
     (\<exists>config. map_of tierConfigurations t = Some config
        \<and> (countries config = None \<or> c \<in> set (the (countries config))))"
  by (auto simp: AirportsService_hasCountryAccess_def split: option.splits)

lemma set_setAdd: "set (setAdd x s) = insert x (set s)"
  by (auto simp: setAdd_def)

lemma distinct_setAdd: "distinct s \<Longrightarrow> distinct (setAdd x s)"
  by (simp add: setAdd_def)

lemma newSet_foldl:
  "set (foldl (\<lambda>s x. setAdd x s) acc xs) = set acc \<union> set xs
   \<and> (distinct acc \<longrightarrow> distinct (foldl (\<lambda>s x. setAdd x s) acc xs))"
  by (induction xs arbitrary: acc) (auto simp: set_setAdd distinct_setAdd)

lemma set_newSet: "set (newSet xs) = set xs"
  using newSet_foldl [of "[]" xs] by (simp add: newSet_def)

lemma distinct_newSet: "distinct (newSet xs)"
  using newSet_foldl [of "[]" xs] by (simp add: newSet_def)

lemma set_routeCountries_foldl:
  "set (foldl (\<lambda>allCountries r.
                 let s1 = (if sourceCountry r \<noteq> ''Unknown''
                           then setAdd (sourceCountry r) allCountries
                           else allCountries)
                 in if destinationCountry r \<noteq> ''Unknown''
                    then setAdd (destinationCountry r) s1 else s1) acc rs)
     = set acc \<union> ((sourceCountry ` set rs \<union> destinationCountry ` set rs) - {''Unknown''})"
  by (induction rs arbitrary: acc) (auto simp: Let_def set_setAdd)

lemma distinct_routeCountries_foldl:
  "distinct acc \<Longrightarrow>
   distinct (foldl (\<lambda>allCountries r.
                 let s1 = (if sourceCountry r \<noteq> ''Unknown''
                           then setAdd (sourceCountry r) allCountries
                           else allCountries)
                 in if destinationCountry r \<noteq> ''Unknown''
                    then setAdd (destinationCountry r) s1 else s1) acc rs)"
  by (induction rs arbitrary: acc) (auto simp: Let_def distinct_setAdd)




section \<open>The claims\<close>

subsection \<open>C1\<close>




lemma getRoutesByTier_example:
  "getRoutesByTier sampleRoutes FREE =
     Inr [(''Israel'', [getRouteWithCountries sampleRoutes (routeOf ''LY'' ''TLV'' ''ETH''),
                        getRouteWithCountries sampleRoutes (routeOf ''LY'' ''TLV'' ''FRA'')]),
          (''Germany'', [getRouteWithCountries sampleRoutes (routeOf ''LH'' ''FRA'' ''TLV'')])]"
  by code_simp

subsection \<open>C2\<close>

text \<open>
  C2. For every tier of the enumeration and every two countries,
  \<^verbatim>\<open>getRoutesBetweenCountries\<close> throws the access error unless both countries satisfy
  \<^verbatim>\<open>hasCountryAccess\<close>, and otherwise returns exactly the routes whose resolved
  source country equals the first and whose resolved destination country equals the
  second. It never throws for ELITE; for FREE it succeeds on Israel to Israel and
  throws on Israel to United States.
\<close>

theorem C2_getRoutesBetweenCountries:
  assumes "t \<in> {FREE, PRO, ELITE}"
  shows "getRoutesBetweenCountries svc t s d =
           (if RoutesService_hasCountryAccess t s \<and> RoutesService_hasCountryAccess t d
            then Inr (filter (\<lambda>r. sourceCountry r = s \<and> destinationCountry r = d)
                        (map (getRouteWithCountries svc) (routes svc)))
            else Inl (Error (''Access to routes between '' @ [CHR 0x27] @ s @ [CHR 0x27] @ '' and ''
                             @ [CHR 0x27] @ d @ [CHR 0x27]
                             @ '' requires a higher subscription tier'')))
       \<and> (\<exists>rs. getRoutesBetweenCountries svc ELITE s d = Inr rs)
       \<and> (\<exists>rs. getRoutesBetweenCountries svc FREE ''Israel'' ''Israel'' = Inr rs)
       \<and> getRoutesBetweenCountries svc FREE ''Israel'' ''United States'' =
           Inl (Error ''Access to routes between 'Israel' and 'United States' requires a higher subscription tier'')"
proof (intro conjI)
  from assms obtain config where c: "map_of tierConfigurations t = Some config"
    using tierConfigurations_present [of t] by auto
  show "getRoutesBetweenCountries svc t s d =
           (if RoutesService_hasCountryAccess t s \<and> RoutesService_hasCountryAccess t d
            then Inr (filter (\<lambda>r. sourceCountry r = s \<and> destinationCountry r = d)
                        (map (getRouteWithCountries svc) (routes svc)))
            else Inl (Error (''Access to routes between '' @ [CHR 0x27] @ s @ [CHR 0x27] @ '' and ''
                             @ [CHR 0x27] @ d @ [CHR 0x27]
                             @ '' requires a higher subscription tier'')))"
    by (simp add: getRoutesBetweenCountries_def RoutesService_hasCountryAccess_iff c
        routesNotAccessible_def)
  show "\<exists>rs. getRoutesBetweenCountries svc ELITE s d = Inr rs"
    by (simp add: getRoutesBetweenCountries_def tierConfigurations_ELITE)
  show "\<exists>rs. getRoutesBetweenCountries svc FREE ''Israel'' ''Israel'' = Inr rs"
    by (simp add: getRoutesBetweenCountries_def tierConfigurations_FREE freeCountries_def)
  show "getRoutesBetweenCountries svc FREE ''Israel'' ''United States'' =
           Inl (Error ''Access to routes between 'Israel' and 'United States' requires a higher subscription tier'')"
    by (simp add: getRoutesBetweenCountries_def tierConfigurations_FREE freeCountries_def
        routesNotAccessible_def)
qed

theorem C2_getRoutesBetweenCountries_witness:
  "PRO \<in> {FREE, PRO, ELITE}
   \<and> RoutesService_hasCountryAccess PRO ''Germany'' \<and> RoutesService_hasCountryAccess PRO ''Israel''
   \<and> \<not> RoutesService_hasCountryAccess PRO ''Mexico''
   \<and> getRoutesBetweenCountries sampleRoutes PRO ''Germany'' ''Israel'' =
       Inr [getRouteWithCountries sampleRoutes (routeOf ''LH'' ''FRA'' ''TLV'')]
   \<and> getRoutesBetweenCountries sampleRoutes PRO ''Mexico'' ''Germany'' =
       Inl (Error ''Access to routes between 'Mexico' and 'Germany' requires a higher subscription tier'')"
proof -
  have h: "PRO \<in> {FREE, PRO, ELITE}" by simp
  have a: "RoutesService_hasCountryAccess PRO ''Germany''"
    and b: "RoutesService_hasCountryAccess PRO ''Israel''"
    and c: "\<not> RoutesService_hasCountryAccess PRO ''Mexico''"
    by (simp_all add: RoutesService_hasCountryAccess_def tierConfigurations_PRO proCountries_def)
  have f: "filter (\<lambda>r. sourceCountry r = ''Germany'' \<and> destinationCountry r = ''Israel'')
             (map (getRouteWithCountries sampleRoutes) (routes sampleRoutes)) =
           [getRouteWithCountries sampleRoutes (routeOf ''LH'' ''FRA'' ''TLV'')]"
    by (simp add: sampleRoutes_def getRouteWithCountries_def routeOf_def orUnknown_def)
  have 1: "getRoutesBetweenCountries sampleRoutes PRO ''Germany'' ''Israel'' =
       Inr [getRouteWithCountries sampleRoutes (routeOf ''LH'' ''FRA'' ''TLV'')]"
    using C2_getRoutesBetweenCountries [OF h, of sampleRoutes "''Germany''" "''Israel''"]
    by (simp only: a b f simp_thms if_True)
  have 2: "getRoutesBetweenCountries sampleRoutes PRO ''Mexico'' ''Germany'' =
       Inl (Error ''Access to routes between 'Mexico' and 'Germany' requires a higher subscription tier'')"
    using C2_getRoutesBetweenCountries [OF h, of sampleRoutes "''Mexico''" "''Germany''"] c
    by simp
  from h a b c 1 2 show ?thesis by (intro conjI)
qed

subsection \<open>C3\<close>




subsection \<open>C4\<close>





subsection \<open>C5\<close>

text \<open>
  C5. For every country string \<open>c\<close>, \<^verbatim>\<open>hasCountryAccess(ELITE, c)\<close> is true, and for
  FREE and PRO \<^verbatim>\<open>hasCountryAccess(tier, c)\<close> is true if and only if \<open>c\<close> is an element
  of the tier's configured list, by equality of strings: no case folding, no trimming,
  no matching of parts. In the three services alike.
\<close>

theorem C5_hasCountryAccess:
  "AirlinesService_hasCountryAccess ELITE c
   \<and> AirlinesService_hasCountryAccess FREE c = (c = ''Israel'')
   \<and> AirlinesService_hasCountryAccess PRO c =
       (c \<in> {''Israel'', ''United States'', ''Canada'', ''United Kingdom'', ''Germany'',
              ''France'', ''Australia'', ''Japan'', ''Brazil'', ''China'', ''India''})
   \<and> AirportsService_hasCountryAccess ELITE c
   \<and> AirportsService_hasCountryAccess FREE c = (c = ''Israel'')
   \<and> AirportsService_hasCountryAccess PRO c =
       (c \<in> {''Israel'', ''United States'', ''Canada'', ''United Kingdom'', ''Germany'',
              ''France'', ''Australia'', ''Japan'', ''Brazil'', ''China'', ''India''})
   \<and> RoutesService_hasCountryAccess ELITE c
   \<and> RoutesService_hasCountryAccess FREE c = (c = ''Israel'')
   \<and> RoutesService_hasCountryAccess PRO c =
       (c \<in> {''Israel'', ''United States'', ''Canada'', ''United Kingdom'', ''Germany'',
              ''France'', ''Australia'', ''Japan'', ''Brazil'', ''China'', ''India''})"
  by (simp add: AirlinesService_hasCountryAccess_def AirportsService_hasCountryAccess_def
      RoutesService_hasCountryAccess_def tierConfigurations_FREE tierConfigurations_PRO
      tierConfigurations_ELITE freeCountries_def proCountries_def)

lemma hasCountryAccess_exact_match_examples:
  "RoutesService_hasCountryAccess FREE ''Israel''"
  "\<not> RoutesService_hasCountryAccess FREE ''israel''"
  "\<not> RoutesService_hasCountryAccess FREE ''Israel ''"
  "\<not> RoutesService_hasCountryAccess FREE ''Isra''"
  "\<not> RoutesService_hasCountryAccess PRO ''United''"
  "\<not> AirlinesService_hasCountryAccess PRO ''germany''"
  "AirportsService_hasCountryAccess ELITE []"
  by (simp_all add: AirlinesService_hasCountryAccess_def AirportsService_hasCountryAccess_def
      RoutesService_hasCountryAccess_def tierConfigurations_FREE tierConfigurations_PRO
      tierConfigurations_ELITE freeCountries_def proCountries_def)

subsection \<open>C6\<close>

text \<open>
  C6. For every tier of the enumeration and every country, \<^verbatim>\<open>byCountry\<close> throws the
  error with message \<^verbatim>\<open>Country '<country>' is not accessible with <tier> tier\<close>
  exactly when \<^verbatim>\<open>hasCountryAccess\<close> is false, and otherwise returns exactly the
  records whose country field equals the country (airlines, airports), or whose
  resolved source or destination country equals it (routes).
\<close>

theorem C6_byCountry:
  assumes "t \<in> {FREE, PRO, ELITE}"
  shows "getAirlinesByCountry al t c =
           (if AirlinesService_hasCountryAccess t c
            then Inr (filter (\<lambda>a. Airline.country a = c) (airlines al))
            else Inl (Error (''Country '' @ [CHR 0x27] @ c @ [CHR 0x27]
                             @ '' is not accessible with '' @ t @ '' tier'')))
       \<and> getAirportsByCountry ap t c =
           (if AirportsService_hasCountryAccess t c
            then Inr (filter (\<lambda>a. Airport.country a = c) (airports ap))
            else Inl (Error (''Country '' @ [CHR 0x27] @ c @ [CHR 0x27]
                             @ '' is not accessible with '' @ t @ '' tier'')))
       \<and> getRoutesByCountry ro t c =
           (if RoutesService_hasCountryAccess t c
            then Inr (filter (\<lambda>r. sourceCountry r = c \<or> destinationCountry r = c)
                        (map (getRouteWithCountries ro) (routes ro)))
            else Inl (Error (''Country '' @ [CHR 0x27] @ c @ [CHR 0x27]
                             @ '' is not accessible with '' @ t @ '' tier'')))"
proof -
  from assms obtain config where c: "map_of tierConfigurations t = Some config"
    using tierConfigurations_present [of t] by auto
  have 1: "getAirlinesByCountry al t c =
           (if AirlinesService_hasCountryAccess t c
            then Inr (filter (\<lambda>a. Airline.country a = c) (airlines al))
            else Inl (Error (''Country '' @ [CHR 0x27] @ c @ [CHR 0x27]
                             @ '' is not accessible with '' @ t @ '' tier'')))"
    by (simp add: getAirlinesByCountry_def AirlinesService_hasCountryAccess_iff c
        countryNotAccessible_def)
  have 2: "getAirportsByCountry ap t c =
           (if AirportsService_hasCountryAccess t c
            then Inr (filter (\<lambda>a. Airport.country a = c) (airports ap))
            else Inl (Error (''Country '' @ [CHR 0x27] @ c @ [CHR 0x27]
                             @ '' is not accessible with '' @ t @ '' tier'')))"
    by (simp add: getAirportsByCountry_def AirportsService_hasCountryAccess_iff c
        countryNotAccessible_def)
  have 3: "getRoutesByCountry ro t c =
           (if RoutesService_hasCountryAccess t c
            then Inr (filter (\<lambda>r. sourceCountry r = c \<or> destinationCountry r = c)
                        (map (getRouteWithCountries ro) (routes ro)))
            else Inl (Error (''Country '' @ [CHR 0x27] @ c @ [CHR 0x27]
                             @ '' is not accessible with '' @ t @ '' tier'')))"
    by (simp add: getRoutesByCountry_def RoutesService_hasCountryAccess_iff c
        countryNotAccessible_def)
  from 1 2 3 show ?thesis by (intro conjI)
qed

theorem C6_byCountry_witness:
  "PRO \<in> {FREE, PRO, ELITE}
   \<and> getAirlinesByCountry sampleAirlines PRO ''Mexico'' =
       Inl (Error ''Country 'Mexico' is not accessible with pro tier'')
   \<and> getAirportsByCountry sampleAirports PRO ''Germany'' =
       Inr [airportOf ''Frankfurt'' ''Germany'' ''FRA'']
   \<and> getRoutesByCountry sampleRoutes PRO ''Germany'' =
       Inr [getRouteWithCountries sampleRoutes (routeOf ''LY'' ''TLV'' ''FRA''),
            getRouteWithCountries sampleRoutes (routeOf ''LH'' ''FRA'' ''TLV''),
            getRouteWithCountries sampleRoutes (routeOf ''AM'' ''MEX'' ''FRA'')]"
proof -
  have h: "PRO \<in> {FREE, PRO, ELITE}" by simp
  have a: "\<not> AirlinesService_hasCountryAccess PRO ''Mexico''"
    and b: "AirportsService_hasCountryAccess PRO ''Germany''"
    and c: "RoutesService_hasCountryAccess PRO ''Germany''"
    by (simp_all add: AirlinesService_hasCountryAccess_def AirportsService_hasCountryAccess_def
        RoutesService_hasCountryAccess_def tierConfigurations_PRO proCountries_def)
  have 1: "getAirlinesByCountry sampleAirlines PRO ''Mexico'' =
       Inl (Error ''Country 'Mexico' is not accessible with pro tier'')"
    using C6_byCountry [OF h, of sampleAirlines "''Mexico''"] a by (simp add: PRO_def)
  have 2: "getAirportsByCountry sampleAirports PRO ''Germany'' =
       Inr [airportOf ''Frankfurt'' ''Germany'' ''FRA'']"
    using C6_byCountry [OF h, of _ "''Germany''" sampleAirports] b
    by (simp add: sampleAirports_def airportOf_def)
  have 3: "getRoutesByCountry sampleRoutes PRO ''Germany'' =
       Inr [getRouteWithCountries sampleRoutes (routeOf ''LY'' ''TLV'' ''FRA''),
            getRouteWithCountries sampleRoutes (routeOf ''LH'' ''FRA'' ''TLV''),
            getRouteWithCountries sampleRoutes (routeOf ''AM'' ''MEX'' ''FRA'')]"
    using C6_byCountry [OF h, of _ "''Germany''" _ sampleRoutes] c
    by (simp add: sampleRoutes_def getRouteWithCountries_def routeOf_def orUnknown_def)
  from h 1 2 3 show ?thesis by (intro conjI)
qed

subsection \<open>C7\<close>

text \<open>
  C7, as stated: for every loaded record set, \<^verbatim>\<open>getAccessibleCountries(ELITE)\<close> leaves
  \<^verbatim>\<open>"Unknown"\<close> out. The airlines service (and the airports service, with the same
  code) lists every value of the country field: an airline whose country field is
  \<^verbatim>\<open>"Unknown"\<close> puts it in the list.
\<close>

theorem C7_counterexample_airlines_Unknown:
  "AirlinesService_getAccessibleCountries
     \<lparr>airlines = [airlineOf ''El Al'' ''Israel'', airlineOf ''Ghost Air'' ''Unknown'']\<rparr> ELITE
   = Inr [''Israel'', ''Unknown'']"
  by (simp add: AirlinesService_getAccessibleCountries_def tierConfigurations_ELITE newSet_def
      setAdd_def airlineOf_def)

text \<open>
  C7, amended. \<^verbatim>\<open>getAccessibleCountries(ELITE)\<close> is sorted and free of duplicates in the
  three services. For routes it holds the resolved source and destination countries
  of the loaded routes except \<^verbatim>\<open>"Unknown"\<close>; for airlines and airports it holds
  every value of the country field of the loaded records, none left out. For FREE and
  PRO it is the configured list as configured, which for PRO is not sorted.
\<close>

theorem C7_getAccessibleCountries:
  "(\<exists>cs. RoutesService_getAccessibleCountries ro ELITE = Inr cs \<and> sorted cs \<and> distinct cs
         \<and> set cs = (sourceCountry ` set (map (getRouteWithCountries ro) (routes ro))
                      \<union> destinationCountry ` set (map (getRouteWithCountries ro) (routes ro)))
                     - {''Unknown''})
   \<and> (\<exists>cs. AirlinesService_getAccessibleCountries al ELITE = Inr cs \<and> sorted cs \<and> distinct cs
         \<and> set cs = Airline.country ` set (airlines al))
   \<and> (\<exists>cs. AirportsService_getAccessibleCountries ap ELITE = Inr cs \<and> sorted cs \<and> distinct cs
         \<and> set cs = Airport.country ` set (airports ap))
   \<and> RoutesService_getAccessibleCountries ro FREE = Inr [''Israel'']
   \<and> AirlinesService_getAccessibleCountries al FREE = Inr [''Israel'']
   \<and> AirportsService_getAccessibleCountries ap FREE = Inr [''Israel'']
   \<and> RoutesService_getAccessibleCountries ro PRO =
        Inr [''Israel'', ''United States'', ''Canada'', ''United Kingdom'', ''Germany'', ''France'',
             ''Australia'', ''Japan'', ''Brazil'', ''China'', ''India'']
   \<and> AirlinesService_getAccessibleCountries al PRO =
        Inr [''Israel'', ''United States'', ''Canada'', ''United Kingdom'', ''Germany'', ''France'',
             ''Australia'', ''Japan'', ''Brazil'', ''China'', ''India'']
   \<and> AirportsService_getAccessibleCountries ap PRO =
        Inr [''Israel'', ''United States'', ''Canada'', ''United Kingdom'', ''Germany'', ''France'',
             ''Australia'', ''Japan'', ''Brazil'', ''China'', ''India'']
   \<and> \<not> sorted [''Israel'', ''United States'', ''Canada'', ''United Kingdom'', ''Germany'', ''France'',
             ''Australia'', ''Japan'', ''Brazil'', ''China'', ''India'']"
proof (intro conjI)
  show "\<exists>cs. RoutesService_getAccessibleCountries ro ELITE = Inr cs \<and> sorted cs \<and> distinct cs
         \<and> set cs = (sourceCountry ` set (map (getRouteWithCountries ro) (routes ro))
                      \<union> destinationCountry ` set (map (getRouteWithCountries ro) (routes ro)))
                     - {''Unknown''}"
    by (simp add: RoutesService_getAccessibleCountries_def tierConfigurations_ELITE
        set_routeCountries_foldl distinct_routeCountries_foldl)
  show "\<exists>cs. AirlinesService_getAccessibleCountries al ELITE = Inr cs \<and> sorted cs \<and> distinct cs
         \<and> set cs = Airline.country ` set (airlines al)"
    by (simp add: AirlinesService_getAccessibleCountries_def tierConfigurations_ELITE
        set_newSet distinct_newSet)
  show "\<exists>cs. AirportsService_getAccessibleCountries ap ELITE = Inr cs \<and> sorted cs \<and> distinct cs
         \<and> set cs = Airport.country ` set (airports ap)"
    by (simp add: AirportsService_getAccessibleCountries_def tierConfigurations_ELITE
        set_newSet distinct_newSet)
  show "RoutesService_getAccessibleCountries ro FREE = Inr [''Israel'']"
    by (simp add: RoutesService_getAccessibleCountries_def tierConfigurations_FREE freeCountries_def)
  show "AirlinesService_getAccessibleCountries al FREE = Inr [''Israel'']"
    by (simp add: AirlinesService_getAccessibleCountries_def tierConfigurations_FREE freeCountries_def)
  show "AirportsService_getAccessibleCountries ap FREE = Inr [''Israel'']"
    by (simp add: AirportsService_getAccessibleCountries_def tierConfigurations_FREE freeCountries_def)
  show "RoutesService_getAccessibleCountries ro PRO =
        Inr [''Israel'', ''United States'', ''Canada'', ''United Kingdom'', ''Germany'', ''France'',
             ''Australia'', ''Japan'', ''Brazil'', ''China'', ''India'']"
    by (simp add: RoutesService_getAccessibleCountries_def tierConfigurations_PRO proCountries_def)
  show "AirlinesService_getAccessibleCountries al PRO =
        Inr [''Israel'', ''United States'', ''Canada'', ''United Kingdom'', ''Germany'', ''France'',
             ''Australia'', ''Japan'', ''Brazil'', ''China'', ''India'']"
    by (simp add: AirlinesService_getAccessibleCountries_def tierConfigurations_PRO proCountries_def)
  show "AirportsService_getAccessibleCountries ap PRO =
        Inr [''Israel'', ''United States'', ''Canada'', ''United Kingdom'', ''Germany'', ''France'',
             ''Australia'', ''Japan'', ''Brazil'', ''China'', ''India'']"
    by (simp add: AirportsService_getAccessibleCountries_def tierConfigurations_PRO proCountries_def)
  show "\<not> sorted [''Israel'', ''United States'', ''Canada'', ''United Kingdom'', ''Germany'', ''France'',
             ''Australia'', ''Japan'', ''Brazil'', ''China'', ''India'']"
    by simp
qed

theorem C7_getAccessibleCountries_witness:
  "RoutesService_getAccessibleCountries sampleRoutes ELITE = Inr [''Germany'', ''Israel'', ''Mexico'']
   \<and> AirlinesService_getAccessibleCountries sampleAirlines ELITE =
       Inr [[], ''Germany'', ''Israel'', ''Mexico'']
   \<and> RoutesService_getAccessibleCountries sampleRoutes FREE = Inr [''Israel'']"
proof -
  have 1: "RoutesService_getAccessibleCountries sampleRoutes ELITE =
      Inr [''Germany'', ''Israel'', ''Mexico'']" by code_simp
  have 2: "AirlinesService_getAccessibleCountries sampleAirlines ELITE =
       Inr [[], ''Germany'', ''Israel'', ''Mexico'']" by code_simp
  from 1 2 C7_getAccessibleCountries [of sampleRoutes sampleAirlines sampleAirports]
  show ?thesis by (intro conjI) (simp_all only:)
qed

subsection \<open>C8\<close>



lemma statistics_examples:
  "RoutesService_getTierStatistics sampleRoutes PRO =
     Inr \<lparr>totalRoutes = 4, totalCountries = 3,
          countriesWithData = [''Germany'', ''Israel'', ''Mexico'']\<rparr>"
  "AirlinesService_getTierStatistics sampleAirlines ELITE =
     Inr \<lparr>totalAirlines = 4, totalCountries = 3,
          countriesWithData = [''Germany'', ''Israel'', ''Mexico'']\<rparr>"
  "AirportsService_getTierStatistics \<lparr>airports = []\<rparr> FREE =
     Inr \<lparr>totalAirports = 0, totalCountries = 0, countriesWithData = []\<rparr>"
  by code_simp+

subsection \<open>C9\<close>

text \<open>
  C9. \<^verbatim>\<open>hasCountryAccess(ELITE, "Unknown")\<close> is true, and
  \<^verbatim>\<open>getRoutesByCountry(ELITE, "Unknown")\<close> returns exactly the routes whose resolved
  source or destination country is \<^verbatim>\<open>"Unknown"\<close>; every loaded route with an airport
  code that the index does not resolve is among them. No route with source country
  \<^verbatim>\<open>"Unknown"\<close> stands in a group of \<^verbatim>\<open>getRoutesByTier\<close>, for any tier: such
  routes are reached through \<^verbatim>\<open>getRoutesByCountry\<close> only.
\<close>

theorem C9_unknown_routes_by_country:
  assumes r: "r \<in> set (routes svc)"
    and u: "airportCountryMap svc (sourceAirport r) = None
            \<or> airportCountryMap svc (destinationAirport r) = None"
  shows "RoutesService_hasCountryAccess ELITE ''Unknown''
       \<and> getRoutesByCountry svc ELITE ''Unknown'' =
           Inr (filter (\<lambda>x. sourceCountry x = ''Unknown'' \<or> destinationCountry x = ''Unknown'')
                  (map (getRouteWithCountries svc) (routes svc)))
       \<and> getRouteWithCountries svc r \<in>
           set (filter (\<lambda>x. sourceCountry x = ''Unknown'' \<or> destinationCountry x = ''Unknown'')
                  (map (getRouteWithCountries svc) (routes svc)))
       \<and> \<not> (\<exists>t m k g x. getRoutesByTier svc t = Inr m \<and> (k, g) \<in> set m \<and> x \<in> set g
                 \<and> sourceCountry x = ''Unknown'')"
proof (intro conjI)
  show "RoutesService_hasCountryAccess ELITE ''Unknown''"
    by (simp add: RoutesService_hasCountryAccess_def tierConfigurations_ELITE)
  show "getRoutesByCountry svc ELITE ''Unknown'' =
           Inr (filter (\<lambda>x. sourceCountry x = ''Unknown'' \<or> destinationCountry x = ''Unknown'')
                  (map (getRouteWithCountries svc) (routes svc)))"
    by (simp add: getRoutesByCountry_def tierConfigurations_ELITE)
  from u have "sourceCountry (getRouteWithCountries svc r) = ''Unknown''
      \<or> destinationCountry (getRouteWithCountries svc r) = ''Unknown''"
    by (auto simp: getRouteWithCountries_def orUnknown_def)
  with r show "getRouteWithCountries svc r \<in>
           set (filter (\<lambda>x. sourceCountry x = ''Unknown'' \<or> destinationCountry x = ''Unknown'')
                  (map (getRouteWithCountries svc) (routes svc)))"
    by simp
  show "\<not> (\<exists>t m k g x. getRoutesByTier svc t = Inr m \<and> (k, g) \<in> set m \<and> x \<in> set g
                 \<and> sourceCountry x = ''Unknown'')"
    using getRoutesByTier_groups_not_Unknown [of svc] by blast
qed

theorem C9_unknown_routes_by_country_witness:
  "routeOf ''XX'' ''ZZZ'' ''TLV'' \<in> set (routes sampleRoutes)
   \<and> airportCountryMap sampleRoutes ''ZZZ'' = None
   \<and> RoutesService_hasCountryAccess ELITE ''Unknown''
   \<and> getRoutesByCountry sampleRoutes ELITE ''Unknown'' =
           Inr (filter (\<lambda>x. sourceCountry x = ''Unknown'' \<or> destinationCountry x = ''Unknown'')
                  (map (getRouteWithCountries sampleRoutes) (routes sampleRoutes)))
   \<and> getRouteWithCountries sampleRoutes (routeOf ''XX'' ''ZZZ'' ''TLV'') \<in>
           set (filter (\<lambda>x. sourceCountry x = ''Unknown'' \<or> destinationCountry x = ''Unknown'')
                  (map (getRouteWithCountries sampleRoutes) (routes sampleRoutes)))
   \<and> \<not> (\<exists>t m k g x. getRoutesByTier sampleRoutes t = Inr m \<and> (k, g) \<in> set m \<and> x \<in> set g
                 \<and> sourceCountry x = ''Unknown'')"
proof -
  have r: "routeOf ''XX'' ''ZZZ'' ''TLV'' \<in> set (routes sampleRoutes)"
    by (simp add: sampleRoutes_def)
  have z: "airportCountryMap sampleRoutes ''ZZZ'' = None"
    by (simp add: sampleRoutes_def)
  have u: "airportCountryMap sampleRoutes (sourceAirport (routeOf ''XX'' ''ZZZ'' ''TLV'')) = None
            \<or> airportCountryMap sampleRoutes (destinationAirport (routeOf ''XX'' ''ZZZ'' ''TLV'')) = None"
    by (simp add: sampleRoutes_def routeOf_def)
  show ?thesis
    by (rule conjI [OF r conjI [OF z C9_unknown_routes_by_country [OF r u]]])
qed

lemma getRoutesByCountry_Unknown_example:
  "getRoutesByCountry sampleRoutes ELITE ''Unknown'' =
     Inr [getRouteWithCountries sampleRoutes (routeOf ''XX'' ''ZZZ'' ''TLV'')]"
  "RoutesService_getAccessibleCountries sampleRoutes ELITE = Inr [''Germany'', ''Israel'', ''Mexico'']"
  by code_simp+

subsection \<open>C10\<close>



end
